theory Spec2Isabelle
  imports Main "HOL-Library.Product_Lexorder" "HOL-Library.Multiset" "HOL-Library.AList"
begin

section \<open>Python values used by gcs-bucket.py\<close>

subsection \<open>Exceptions\<close>

text \<open>
  Every exception of the model is an instance of Python's \<^verbatim>\<open>Exception\<close>: these are what the
  storage client, the credential loader, the thread pool and the spreadsheet writer raise.
  An exception carries its class and the text \<^verbatim>\<open>str(e)\<close> prints.
\<close>

datatype exn_class =
    AttributeError | TypeError | ValueError | FileNotFoundError | DefaultCredentialsError
  | OSError | Forbidden | NotFound | GoogleAPIError

datatype exn = Exn exn_class string

fun class_of :: "exn \<Rightarrow> exn_class" where
  "class_of (Exn c m) = c"

fun str :: "exn \<Rightarrow> string" where
  "str (Exn c m) = m"

subsection \<open>datetime\<close>

text \<open>
  A \<^verbatim>\<open>datetime\<close> holds its wall-clock fields and an optional time zone, kept here as the
  zone's UTC offset in minutes; \<open>None\<close> is a naive value.
\<close>

record datetime =
  year :: nat
  month :: nat
  day :: nat
  hour :: nat
  minute :: nat
  second :: nat
  microsecond :: nat
  tzinfo :: "int option"

text \<open>\<^verbatim>\<open>d.replace(tzinfo=None)\<close> keeps the wall-clock fields and drops the zone.\<close>

definition replace_tzinfo_None :: "datetime \<Rightarrow> datetime" where
  "replace_tzinfo_None d = d\<lparr>tzinfo := None\<rparr>"

text \<open>
  The tuple Python compares when both operands are naive:
  \<^verbatim>\<open>(year, month, day, hour, minute, second, microsecond)\<close>, lexicographically.
\<close>

definition wall :: "datetime \<Rightarrow> nat \<times> nat \<times> nat \<times> nat \<times> nat \<times> nat \<times> nat" where
  "wall d = (year d, month d, day d, hour d, minute d, second d, microsecond d)"

definition TypeError_naive_aware :: exn where
  "TypeError_naive_aware = Exn TypeError ''can't compare offset-naive and offset-aware datetimes''"

text \<open>
  \<^verbatim>\<open>a > b\<close> where \<open>a\<close> is naive, which is how every comparison of the program is called (its left
  operand comes out of \<^verbatim>\<open>replace(tzinfo=None)\<close>): the wall-clock tuples are compared when \<open>b\<close> is
  naive too, and Python raises \<^verbatim>\<open>TypeError\<close> when \<open>b\<close> is aware.
\<close>

definition naive_gt :: "datetime \<Rightarrow> datetime \<Rightarrow> exn + bool" where
  "naive_gt a b =
     (case tzinfo b of
        None \<Rightarrow> Inr (wall a > wall b)
      | Some off \<Rightarrow> Inl TypeError_naive_aware)"

subsection \<open>Iterators\<close>

text \<open>
  A lazy iterator, as \<^verbatim>\<open>client.list_blobs\<close> returns: each \<^verbatim>\<open>next\<close> yields an item, ends the
  iteration, or raises (a page request that fails).
\<close>

datatype 'a iterator = StopIteration | Yield 'a "'a iterator" | Raise exn

fun yields :: "'a list \<Rightarrow> 'a iterator \<Rightarrow> 'a iterator" where
  "yields [] it = it"
| "yields (x # xs) it = Yield x (yields xs it)"

section \<open>The storage provider\<close>

record bucket =
  name :: string
  time_created :: "datetime option"
  updated :: "datetime option"
  location :: string
  storage_class :: string

record blob =
  blob_updated :: "datetime option"

text \<open>
  The client handle with the provider's answers to the three requests the program makes:
  listing the project's buckets, reading one bucket's resource, listing a bucket's objects.
\<close>

record client =
  project :: string
  api_list_buckets :: "exn + bucket list"
  api_get_bucket :: "string \<Rightarrow> exn + bucket"
  api_list_objects :: "string \<Rightarrow> blob iterator"

text \<open>
  \<^verbatim>\<open>list(client.list_buckets())\<close>: the whole listing, or the exception a page raised.
\<close>

definition list_buckets :: "client \<Rightarrow> exn + bucket list" where
  "list_buckets c = api_list_buckets c"

text \<open>
  \<^verbatim>\<open>client.get_bucket(bucket_name)\<close> builds a bucket object under the name it was asked for and
  loads the resource into it, so the object's \<^verbatim>\<open>name\<close> is the requested name.
\<close>

definition get_bucket :: "client \<Rightarrow> string \<Rightarrow> exn + bucket" where
  "get_bucket c bucket_name =
     (case api_get_bucket c bucket_name of
        Inl e \<Rightarrow> Inl e
      | Inr b \<Rightarrow> Inr (b\<lparr>name := bucket_name\<rparr>))"

definition list_blobs :: "client \<Rightarrow> string \<Rightarrow> blob iterator" where
  "list_blobs c bucket_name = api_list_objects c bucket_name"

section \<open>Process state and logging\<close>

datatype level = INFO | ERROR

record cell =
  cell_value :: "string option"
  bold :: bool

record worksheet =
  title :: string
  cells :: "((nat \<times> nat) \<times> cell) list"
  column_width :: "(nat \<times> nat) list"

text \<open>
  What the program changes: the environment variables of the process, the files it has
  written (a saved workbook is its one sheet), and the log records emitted so far (level and
  message; the time stamp of the log format is not kept).
\<close>

record world =
  environ :: "string \<rightharpoonup> string"
  files :: "string \<rightharpoonup> worksheet"
  log_records :: "(level \<times> string) list"

definition logging_error :: "string \<Rightarrow> world \<Rightarrow> world" where
  "logging_error msg w = w\<lparr>log_records := log_records w @ [(ERROR, msg)]\<rparr>"

definition logging_info :: "string \<Rightarrow> world \<Rightarrow> world" where
  "logging_info msg w = w\<lparr>log_records := log_records w @ [(INFO, msg)]\<rparr>"

section \<open>check_bucket_modification\<close>

record scan_result =
  res_name :: string
  res_created :: datetime
  res_last_modified :: datetime
  res_location :: string
  res_storage_class :: string

definition AttributeError_replace :: exn where
  "AttributeError_replace =
     Exn AttributeError
       (CHR 0x27 # ''NoneType'' @ CHR 0x27 # '' object has no attribute '' @
        CHR 0x27 # ''replace'' @ [CHR 0x27])"

text \<open>
  The loop over the listed objects. \<open>Inr True\<close>: an object was modified after the cutoff and
  the function returns \<^verbatim>\<open>None\<close> at once; \<open>Inr False\<close>: the iteration ended and no object was;
  \<open>Inl e\<close>: the iteration or a comparison raised. \<^verbatim>\<open>blob.updated.replace\<close> on an object whose
  \<^verbatim>\<open>updated\<close> is \<^verbatim>\<open>None\<close> raises \<^verbatim>\<open>AttributeError\<close>.
\<close>

fun blobs_modified_after :: "blob iterator \<Rightarrow> datetime \<Rightarrow> exn + bool" where
  "blobs_modified_after StopIteration cutoff_date = Inr False"
| "blobs_modified_after (Raise e) cutoff_date = Inl e"
| "blobs_modified_after (Yield blob blobs) cutoff_date =
     (case blob_updated blob of
        None \<Rightarrow> Inl AttributeError_replace
      | Some u \<Rightarrow>
          (case naive_gt (replace_tzinfo_None u) cutoff_date of
             Inl e \<Rightarrow> Inl e
           | Inr True \<Rightarrow> Inr True
           | Inr False \<Rightarrow> blobs_modified_after blobs cutoff_date))"

text \<open>
  \<^verbatim>\<open>bucket.updated and bucket.updated.replace(tzinfo=None) > cutoff_date\<close>: \<^verbatim>\<open>None\<close> is falsy and
  the comparison is not evaluated; a datetime is truthy.
\<close>

definition updated_after :: "bucket \<Rightarrow> datetime \<Rightarrow> exn + bool" where
  "updated_after bucket cutoff_date =
     (case updated bucket of
        None \<Rightarrow> Inr False
      | Some u \<Rightarrow> naive_gt (replace_tzinfo_None u) cutoff_date)"

text \<open>
  \<^verbatim>\<open>bucket.updated or bucket.time_created\<close>; \<open>created\<close> is the creation time already read.
\<close>

definition updated_or_created :: "bucket \<Rightarrow> datetime \<Rightarrow> datetime" where
  "updated_or_created bucket created =
     (case updated bucket of None \<Rightarrow> created | Some u \<Rightarrow> u)"

text \<open>
  The body of the \<^verbatim>\<open>try\<close> block: \<open>Inr (Some r)\<close> returns the dictionary, \<open>Inr None\<close> returns
  \<^verbatim>\<open>None\<close>, \<open>Inl e\<close> raises.
\<close>

definition check_bucket_try :: "client \<Rightarrow> string \<Rightarrow> datetime \<Rightarrow> exn + scan_result option" where
  "check_bucket_try c bucket_name cutoff_date =
     (case get_bucket c bucket_name of
        Inl e \<Rightarrow> Inl e
      | Inr bucket \<Rightarrow>
          (case time_created bucket of
             None \<Rightarrow> Inl AttributeError_replace
           | Some created \<Rightarrow>
               (case naive_gt (replace_tzinfo_None created) cutoff_date of
                  Inl e \<Rightarrow> Inl e
                | Inr True \<Rightarrow> Inr None
                | Inr False \<Rightarrow>
                    (case updated_after bucket cutoff_date of
                       Inl e \<Rightarrow> Inl e
                     | Inr True \<Rightarrow> Inr None
                     | Inr False \<Rightarrow>
                         (case blobs_modified_after (list_blobs c bucket_name) cutoff_date of
                            Inl e \<Rightarrow> Inl e
                          | Inr True \<Rightarrow> Inr None
                          | Inr False \<Rightarrow>
                              Inr (Some \<lparr>res_name = name bucket,
                                         res_created = created,
                                         res_last_modified = updated_or_created bucket created,
                                         res_location = location bucket,
                                         res_storage_class = storage_class bucket\<rparr>))))))"

text \<open>
  The function with its \<^verbatim>\<open>except Exception\<close>: the handler logs and returns \<^verbatim>\<open>None\<close>. The result
  is kept as a sum so that "does not raise" is a statement about the function, not its type.
\<close>

definition check_bucket_modification ::
    "client \<Rightarrow> string \<Rightarrow> datetime \<Rightarrow> world \<Rightarrow> (exn + scan_result option) \<times> world" where
  "check_bucket_modification c bucket_name cutoff_date w =
     (case check_bucket_try c bucket_name cutoff_date of
        Inr r \<Rightarrow> (Inr r, w)
      | Inl e \<Rightarrow>
          (Inr None,
           logging_error (''Error processing bucket '' @ bucket_name @ '': '' @ str e) w))"

section \<open>get_unmodified_buckets\<close>

text \<open>
  \<^verbatim>\<open>as_completed\<close> hands the futures back in the order in which they complete, which the thread
  pool decides. The order is a parameter of the model: the schedule picks, at each step, which
  of the futures still pending completes next (index modulo the number pending; with the
  schedule used up the rest complete in submission order). Every schedule gives a permutation
  of the futures, and every permutation comes from a schedule.
\<close>

function as_completed :: "nat list \<Rightarrow> 'a list \<Rightarrow> 'a list" where
  "as_completed sched [] = []"
| "as_completed [] (f # fs) = f # fs"
| "as_completed (k # sched) (f # fs) =
     (let i = k mod length (f # fs)
      in (f # fs) ! i # as_completed sched (take i (f # fs) @ drop (Suc i) (f # fs)))"
  by pat_completeness auto
termination
  by (relation "measure (\<lambda>(sched, fs). length fs)") auto

text \<open>Running the submitted calls, each one from the state the one before it left.\<close>

fun run_all :: "(world \<Rightarrow> 'a \<times> world) list \<Rightarrow> world \<Rightarrow> 'a list \<times> world" where
  "run_all [] w = ([], w)"
| "run_all (f # fs) w =
     (case f w of (r, w1) \<Rightarrow> (case run_all fs w1 of (rs, w2) \<Rightarrow> (r # rs, w2)))"

text \<open>
  The loop over the completed futures, with the list built so far. \<^verbatim>\<open>future.result()\<close> raises
  what the call raised, which ends the loop with the list as it stands; a dictionary is
  truthy and is appended, \<^verbatim>\<open>None\<close> is skipped.
\<close>

fun collect_results ::
    "(exn + scan_result option) list \<Rightarrow> scan_result list \<Rightarrow> scan_result list \<times> exn option" where
  "collect_results [] unmodified_buckets = (unmodified_buckets, None)"
| "collect_results (Inl e # futures) unmodified_buckets = (unmodified_buckets, Some e)"
| "collect_results (Inr None # futures) unmodified_buckets =
     collect_results futures unmodified_buckets"
| "collect_results (Inr (Some result) # futures) unmodified_buckets =
     collect_results futures (unmodified_buckets @ [result])"

definition ValueError_max_workers :: exn where
  "ValueError_max_workers = Exn ValueError ''max_workers must be greater than 0''"

text \<open>
  The listing is materialised first; \<^verbatim>\<open>ThreadPoolExecutor\<close> raises \<^verbatim>\<open>ValueError\<close> for a worker
  count that is not positive; the pool runs every submitted call before the \<^verbatim>\<open>with\<close> block is
  left. Whatever is raised inside the \<^verbatim>\<open>try\<close> is logged, and the list built so far is returned.
\<close>

definition get_unmodified_buckets ::
    "nat list \<Rightarrow> client \<Rightarrow> datetime \<Rightarrow> int \<Rightarrow> world \<Rightarrow> (exn + scan_result list) \<times> world" where
  "get_unmodified_buckets sched c cutoff_date max_workers w =
     (case list_buckets c of
        Inl e \<Rightarrow> (Inr [], logging_error (''Error in get_unmodified_buckets: '' @ str e) w)
      | Inr buckets \<Rightarrow>
          if max_workers \<le> 0 then
            (Inr [],
             logging_error (''Error in get_unmodified_buckets: '' @ str ValueError_max_workers) w)
          else
            (case run_all
                    (as_completed sched
                       (map (\<lambda>bucket. check_bucket_modification c (name bucket) cutoff_date) buckets))
                    w of
               (futures, w1) \<Rightarrow>
                 (case collect_results futures [] of
                    (unmodified_buckets, None) \<Rightarrow> (Inr unmodified_buckets, w1)
                  | (unmodified_buckets, Some e) \<Rightarrow>
                      (Inr unmodified_buckets,
                       logging_error (''Error in get_unmodified_buckets: '' @ str e) w1))))"

section \<open>get_storage_client\<close>

text \<open>
  What the program reads from outside the process: the home directory lookup of
  \<^verbatim>\<open>os.path.expanduser\<close> (which reads the environment), the credential file, the client
  constructor, the date parser, the file system under \<^verbatim>\<open>wb.save\<close>, and the order in which the
  thread pool completes its futures.
\<close>

type_synonym credentials = string

record sys =
  expanduser :: "(string \<rightharpoonup> string) \<Rightarrow> string \<Rightarrow> string"
  from_authorized_user_file :: "string \<Rightarrow> exn + credentials"
  storage_Client :: "string \<Rightarrow> credentials \<Rightarrow> exn + client"
  strptime_Ymd :: "string \<Rightarrow> exn + nat \<times> nat \<times> nat"
  save_raises :: "string \<Rightarrow> exn option"
  completion_order :: "nat list"

definition credentials_message :: string where
  "credentials_message =
     ''Unable to find local credentials. Please run '' @
     CHR 0x27 # ''gcloud auth application-default login'' @ [CHR 0x27]"

text \<open>
  The environment variable is assigned first; the \<^verbatim>\<open>try\<close> block then reads the credentials
  (from a path expanded under the environment as it now stands) and builds the client. The
  handler matches two classes, logs, and re-raises; any other exception leaves the function
  as it is.
\<close>

definition get_storage_client :: "sys \<Rightarrow> string \<Rightarrow> world \<Rightarrow> (exn + client) \<times> world" where
  "get_storage_client s project_id w =
     (let w1 = w\<lparr>environ := (environ w)(''GOOGLE_CLOUD_PROJECT'' \<mapsto> project_id)\<rparr>
      in case (case from_authorized_user_file s
                      (expanduser s (environ w1)
                         ''~/.config/gcloud/application_default_credentials.json'') of
                 Inl e \<Rightarrow> Inl e
               | Inr credentials \<Rightarrow> storage_Client s project_id credentials) of
           Inr c \<Rightarrow> (Inr c, w1)
         | Inl e \<Rightarrow>
             if class_of e = DefaultCredentialsError \<or> class_of e = FileNotFoundError
             then (Inl e, logging_error credentials_message w1)
             else (Inl e, w1))"

section \<open>write_to_excel\<close>

text \<open>Decimal digits of a number, as \<^verbatim>\<open>str\<close> and the format directives print them.\<close>

fun dec :: "nat \<Rightarrow> string" where
  "dec n = (if n < 10 then [''0123456789'' ! n] else dec (n div 10) @ [''0123456789'' ! (n mod 10)])"

text \<open>A number padded with zeros on the left to a minimal width.\<close>

definition zero_pad :: "nat \<Rightarrow> nat \<Rightarrow> string" where
  "zero_pad width n = replicate (width - length (dec n)) (CHR ''0'') @ dec n"

text \<open>
  \<^verbatim>\<open>d.strftime('%Y-%m-%d %H:%M:%S')\<close>: the year with century on four digits, as the library
  documents \<^verbatim>\<open>%Y\<close>, and the other fields on two.
\<close>

definition strftime :: "datetime \<Rightarrow> string" where
  "strftime d =
     zero_pad 4 (year d) @ ''-'' @ zero_pad 2 (month d) @ ''-'' @ zero_pad 2 (day d) @ '' '' @
     zero_pad 2 (hour d) @ '':'' @ zero_pad 2 (minute d) @ '':'' @ zero_pad 2 (second d)"

text \<open>The active sheet of a new workbook.\<close>

definition Workbook_active :: worksheet where
  "Workbook_active = \<lparr>title = ''Sheet'', cells = [], column_width = []\<rparr>"

definition empty_cell :: cell where
  "empty_cell = \<lparr>cell_value = None, bold = False\<rparr>"

definition cell_at :: "worksheet \<Rightarrow> nat \<Rightarrow> nat \<Rightarrow> cell" where
  "cell_at ws row col =
     (case map_of (cells ws) (row, col) of None \<Rightarrow> empty_cell | Some cl \<Rightarrow> cl)"

text \<open>
  \<^verbatim>\<open>ws.cell(row=row, column=col, value=v)\<close> with a string: the cell is created when the sheet
  has none there, and takes the value.
\<close>

definition ws_cell :: "worksheet \<Rightarrow> nat \<Rightarrow> nat \<Rightarrow> string \<Rightarrow> worksheet" where
  "ws_cell ws row col v =
     ws\<lparr>cells := AList.update (row, col) ((cell_at ws row col)\<lparr>cell_value := Some v\<rparr>) (cells ws)\<rparr>"

text \<open>\<^verbatim>\<open>cell.font = Font(bold=True)\<close> on the cell at a position.\<close>

definition font_bold :: "worksheet \<Rightarrow> nat \<Rightarrow> nat \<Rightarrow> worksheet" where
  "font_bold ws row col =
     ws\<lparr>cells := AList.map_entry (row, col) (\<lambda>cl. cl\<lparr>bold := True\<rparr>) (cells ws)\<rparr>"

definition headers :: "string list" where
  "headers = [''Bucket Name'', ''Created Date'', ''Last Modified Date'', ''Location'',
              ''Storage Class'']"

definition write_headers :: "worksheet \<Rightarrow> worksheet" where
  "write_headers ws =
     fold (\<lambda>(col, header) ws. font_bold (ws_cell ws 1 col header) 1 col)
       (List.enumerate 1 headers) ws"

definition write_bucket :: "nat \<Rightarrow> scan_result \<Rightarrow> worksheet \<Rightarrow> worksheet" where
  "write_bucket row bucket ws =
     (let ws1 = ws_cell ws row 1 (res_name bucket);
          ws2 = ws_cell ws1 row 2 (strftime (res_created bucket));
          ws3 = ws_cell ws2 row 3 (strftime (res_last_modified bucket));
          ws4 = ws_cell ws3 row 4 (res_location bucket)
      in ws_cell ws4 row 5 (res_storage_class bucket))"

definition write_data :: "scan_result list \<Rightarrow> worksheet \<Rightarrow> worksheet" where
  "write_data buckets ws =
     fold (\<lambda>(row, bucket) ws. write_bucket row bucket ws) (List.enumerate 2 buckets) ws"

text \<open>The sheet's dimensions: 1 for an empty sheet, else the extremes over its cells.\<close>

definition min_row :: "worksheet \<Rightarrow> nat" where
  "min_row ws = (if cells ws = [] then 1 else Min (set (map (fst \<circ> fst) (cells ws))))"

definition max_row :: "worksheet \<Rightarrow> nat" where
  "max_row ws = (if cells ws = [] then 1 else Max (set (map (fst \<circ> fst) (cells ws))))"

definition min_column :: "worksheet \<Rightarrow> nat" where
  "min_column ws = (if cells ws = [] then 1 else Min (set (map (snd \<circ> fst) (cells ws))))"

definition max_column :: "worksheet \<Rightarrow> nat" where
  "max_column ws = (if cells ws = [] then 1 else Max (set (map (snd \<circ> fst) (cells ws))))"

text \<open>
  \<^verbatim>\<open>ws.columns\<close>: no column for a sheet without cells, else one tuple of cells per column of
  the sheet's dimensions, here with the column's index in place of its letter.
\<close>

definition ws_columns :: "worksheet \<Rightarrow> (nat \<times> cell list) list" where
  "ws_columns ws =
     (if cells ws = [] then []
      else map (\<lambda>col. (col, map (\<lambda>row. cell_at ws row col) [min_row ws..<Suc (max_row ws)]))
             [min_column ws..<Suc (max_column ws)])"

text \<open>
  One step of the width loop. For a cell without a value \<^verbatim>\<open>len(str(None))\<close> is 4, and where
  that exceeds the maximum \<^verbatim>\<open>len(None)\<close> raises \<^verbatim>\<open>TypeError\<close>, which the bare \<^verbatim>\<open>except\<close> passes
  over: the maximum stays either way.
\<close>

definition longer :: "cell \<Rightarrow> nat \<Rightarrow> nat" where
  "longer cl max_length =
     (case cell_value cl of
        None \<Rightarrow> max_length
      | Some v \<Rightarrow> if length v > max_length then length v else max_length)"

definition adjust_column_widths :: "worksheet \<Rightarrow> worksheet" where
  "adjust_column_widths ws =
     fold (\<lambda>(col, column) ws.
             ws\<lparr>column_width := AList.update col (fold longer column 0 + 2) (column_width ws)\<rparr>)
       (ws_columns ws) ws"

text \<open>
  The sheet is built in memory and saved; \<^verbatim>\<open>wb.save\<close> is the one call of the \<^verbatim>\<open>try\<close> block that
  can raise here, and the handler logs what it raised.
\<close>

definition build_sheet :: "scan_result list \<Rightarrow> worksheet" where
  "build_sheet buckets =
     adjust_column_widths
       (write_data buckets (write_headers (Workbook_active\<lparr>title := ''Unmodified Buckets''\<rparr>)))"

definition write_to_excel :: "sys \<Rightarrow> scan_result list \<Rightarrow> string \<Rightarrow> world \<Rightarrow> (exn + unit) \<times> world" where
  "write_to_excel s buckets filename w =
     (case save_raises s filename of
        None \<Rightarrow>
          (Inr (),
           logging_info (''Results written to '' @ filename)
             (w\<lparr>files := (files w)(filename \<mapsto> build_sheet buckets)\<rparr>))
      | Some e \<Rightarrow> (Inr (), logging_error (''Error writing to Excel: '' @ str e) w))"

section \<open>main\<close>

record args =
  arg_project_id :: string
  arg_cutoff_date :: string
  arg_output :: string
  arg_max_workers :: int

text \<open>
  \<^verbatim>\<open>datetime.strptime(s, "%Y-%m-%d")\<close> gives the parsed date at midnight with no zone.
\<close>

definition midnight :: "nat \<times> nat \<times> nat \<Rightarrow> datetime" where
  "midnight ymd =
     (case ymd of (y, m, d) \<Rightarrow>
        \<lparr>year = y, month = m, day = d, hour = 0, minute = 0, second = 0, microsecond = 0,
         tzinfo = None\<rparr>)"

text \<open>
  \<open>Inr ()\<close>: \<^verbatim>\<open>main\<close> returns and the process exits normally; \<open>Inl e\<close>: the exception leaves
  \<^verbatim>\<open>main\<close> uncaught and terminates the process.
\<close>

definition main :: "sys \<Rightarrow> args \<Rightarrow> world \<Rightarrow> (exn + unit) \<times> world" where
  "main s a w =
     (case strptime_Ymd s (arg_cutoff_date a) of
        Inl e \<Rightarrow>
          if class_of e = ValueError
          then (Inr (), logging_error ''Invalid date format. Please use YYYY-MM-DD.'' w)
          else (Inl e, w)
      | Inr ymd \<Rightarrow>
          (let w1 = logging_info
                      (''Searching for unmodified buckets in project '' @ arg_project_id a @
                       '' since '' @ arg_cutoff_date a) w
           in case get_storage_client s (arg_project_id a) w1 of
                (Inl e, w2) \<Rightarrow> (Inr (), logging_error (''An error occurred: '' @ str e) w2)
              | (Inr c, w2) \<Rightarrow>
                  (case get_unmodified_buckets (completion_order s) c (midnight ymd)
                          (arg_max_workers a) w2 of
                     (Inl e, w3) \<Rightarrow> (Inr (), logging_error (''An error occurred: '' @ str e) w3)
                   | (Inr unmodified_buckets, w3) \<Rightarrow>
                       if unmodified_buckets \<noteq> [] then
                         (case write_to_excel s unmodified_buckets (arg_output a) w3 of
                            (Inl e, w4) \<Rightarrow>
                              (Inr (), logging_error (''An error occurred: '' @ str e) w4)
                          | (Inr u, w4) \<Rightarrow>
                              (Inr (),
                               logging_info
                                 (''Found '' @ dec (length unmodified_buckets) @
                                  '' unmodified buckets'') w4))
                       else (Inr (), logging_info ''No unmodified buckets found'' w3))))"

section \<open>Notions used in the properties\<close>

text \<open>What \<^verbatim>\<open>check_bucket_modification\<close> returns, with the handler folded in.\<close>

definition check_result :: "client \<Rightarrow> string \<Rightarrow> datetime \<Rightarrow> scan_result option" where
  "check_result c bucket_name cutoff_date =
     (case check_bucket_try c bucket_name cutoff_date of Inl e \<Rightarrow> None | Inr r \<Rightarrow> r)"

text \<open>A timestamp is at or before the cutoff: its zone is stripped, then it is not greater.\<close>

definition at_or_before :: "datetime \<Rightarrow> datetime \<Rightarrow> bool" where
  "at_or_before t cutoff_date = (wall (replace_tzinfo_None t) \<le> wall cutoff_date)"

text \<open>The log records one call of \<^verbatim>\<open>check_bucket_modification\<close> emits.\<close>

definition check_log :: "client \<Rightarrow> string \<Rightarrow> datetime \<Rightarrow> (level \<times> string) list" where
  "check_log c bucket_name cutoff_date =
     (case check_bucket_try c bucket_name cutoff_date of
        Inl e \<Rightarrow> [(ERROR, ''Error processing bucket '' @ bucket_name @ '': '' @ str e)]
      | Inr r \<Rightarrow> [])"

text \<open>The three recency checks of a bucket resource and the objects listed for it.\<close>

definition recency_checks :: "bucket \<Rightarrow> blob list \<Rightarrow> datetime \<Rightarrow> bool" where
  "recency_checks b blobs cutoff_date \<longleftrightarrow>
     (\<exists>t. time_created b = Some t \<and> at_or_before t cutoff_date) \<and>
     (\<forall>u. updated b = Some u \<longrightarrow> at_or_before u cutoff_date) \<and>
     (\<forall>blob\<in>set blobs. \<exists>t. blob_updated blob = Some t \<and> at_or_before t cutoff_date)"




text \<open>The positions of a sheet that hold a cell, and the five values written for a result.\<close>

definition keys :: "worksheet \<Rightarrow> (nat \<times> nat) set" where
  "keys ws = fst ` set (cells ws)"


section \<open>Example inputs\<close>

text \<open>
  A project with three listed buckets, one of which the caller may not read. Three more
  names answer with objects: a recent object followed by one without a timestamp, an old
  object followed by one without a timestamp, and an old object followed by a failed page.
\<close>

definition w0 :: world where
  "w0 = \<lparr>environ = Map.empty, files = Map.empty, log_records = []\<rparr>"

definition cutoff0 :: datetime where
  "cutoff0 = midnight (2021, 1, 1)"

definition t_old :: datetime where
  "t_old = \<lparr>year = 2020, month = 6, day = 15, hour = 12, minute = 30, second = 5,
            microsecond = 0, tzinfo = Some 0\<rparr>"

definition t_cut :: datetime where
  "t_cut = \<lparr>year = 2021, month = 1, day = 1, hour = 0, minute = 0, second = 0,
            microsecond = 0, tzinfo = Some 0\<rparr>"

definition t_new :: datetime where
  "t_new = \<lparr>year = 2022, month = 3, day = 1, hour = 8, minute = 0, second = 0,
            microsecond = 0, tzinfo = Some 0\<rparr>"

definition b_old :: bucket where
  "b_old = \<lparr>name = ''alpha'', time_created = Some t_old, updated = None,
            location = ''US'', storage_class = ''STANDARD''\<rparr>"

definition b_locked :: bucket where
  "b_locked = \<lparr>name = ''locked'', time_created = Some t_old, updated = None,
               location = ''EU'', storage_class = ''NEARLINE''\<rparr>"

definition b_edge :: bucket where
  "b_edge = \<lparr>name = ''edge'', time_created = Some t_cut, updated = Some t_cut,
             location = ''US'', storage_class = ''COLDLINE''\<rparr>"

definition b_mixed :: bucket where
  "b_mixed = \<lparr>name = ''mixed'', time_created = Some t_old, updated = None,
              location = ''US'', storage_class = ''STANDARD''\<rparr>"

definition blob_old :: blob where
  "blob_old = \<lparr>blob_updated = Some t_old\<rparr>"

definition blob_new :: blob where
  "blob_new = \<lparr>blob_updated = Some t_new\<rparr>"

definition blob_bare :: blob where
  "blob_bare = \<lparr>blob_updated = None\<rparr>"

definition client0 :: client where
  "client0 =
     \<lparr>project = ''demo'',
      api_list_buckets = Inr [b_old, b_locked, b_edge],
      api_get_bucket = (\<lambda>n. if n = ''alpha'' then Inr b_old
                            else if n = ''edge'' then Inr b_edge
                            else if n = ''mixed'' \<or> n = ''bare'' \<or> n = ''flaky'' then Inr b_mixed
                            else Inl (Exn Forbidden ''403 access denied'')),
      api_list_objects = (\<lambda>n. if n = ''alpha'' then Yield blob_old StopIteration
                              else if n = ''mixed'' then Yield blob_new (Yield blob_bare StopIteration)
                              else if n = ''bare'' then Yield blob_old (Yield blob_bare StopIteration)
                              else if n = ''flaky''
                              then Yield blob_old (Raise (Exn GoogleAPIError ''503 backend error''))
                              else StopIteration)\<rparr>"

definition r_alpha :: scan_result where
  "r_alpha = \<lparr>res_name = ''alpha'', res_created = t_old, res_last_modified = t_old,
              res_location = ''US'', res_storage_class = ''STANDARD''\<rparr>"

definition r_edge :: scan_result where
  "r_edge = \<lparr>res_name = ''edge'', res_created = t_cut, res_last_modified = t_cut,
             res_location = ''US'', res_storage_class = ''COLDLINE''\<rparr>"

definition s0 :: sys where
  "s0 = \<lparr>expanduser = (\<lambda>env p. (case env ''HOME'' of None \<Rightarrow> ''/root'' | Some h \<Rightarrow> h) @ tl p),
          from_authorized_user_file = (\<lambda>p. Inr ''refresh-token''),
          storage_Client = (\<lambda>pid cr. Inr client0),
          strptime_Ymd = (\<lambda>d. if d = ''2021-01-01'' then Inr (2021, 1, 1)
                              else if d = ''2019-01-01'' then Inr (2019, 1, 1)
                              else Inl (Exn ValueError ''time data does not match format'')),
          save_raises = (\<lambda>f. None),
          completion_order = [1]\<rparr>"

definition s_nocreds :: sys where
  "s_nocreds = s0\<lparr>from_authorized_user_file :=
                    (\<lambda>p. Inl (Exn FileNotFoundError ''[Errno 2] No such file or directory''))\<rparr>"

definition c_nolist :: client where
  "c_nolist = client0\<lparr>api_list_buckets := Inl (Exn Forbidden ''403 list denied'')\<rparr>"

definition s_nolist :: sys where
  "s_nolist = s0\<lparr>storage_Client := (\<lambda>pid cr. Inr c_nolist)\<rparr>"

definition args0 :: args where
  "args0 = \<lparr>arg_project_id = ''demo'', arg_cutoff_date = ''2021-01-01'',
             arg_output = ''unmodified_buckets.xlsx'', arg_max_workers = 10\<rparr>"

definition args_2019 :: args where
  "args_2019 = args0\<lparr>arg_cutoff_date := ''2019-01-01''\<rparr>"

section \<open>Properties of the scan\<close>

lemma wall_replace [simp]: "wall (replace_tzinfo_None t) = wall t"
  by (simp add: wall_def replace_tzinfo_None_def)

lemma naive_gt_naive:
  "tzinfo cutoff_date = None \<Longrightarrow>
   naive_gt (replace_tzinfo_None t) cutoff_date = Inr (\<not> at_or_before t cutoff_date)"
  by (simp add: naive_gt_def at_or_before_def not_le)

lemma fst_check_bucket_modification:
  "fst (check_bucket_modification c n d w) = Inr (check_result c n d)"
  by (simp add: check_bucket_modification_def check_result_def split: sum.splits)

lemma mset_as_completed: "mset (as_completed sched xs) = mset xs"
proof (induction sched xs rule: as_completed.induct)
  case (3 k sched f fs)
  let ?xs = "f # fs"
  let ?i = "k mod length ?xs"
  have i: "?i < length ?xs" by simp
  have "mset ?xs = mset (take ?i ?xs @ ?xs ! ?i # drop (Suc ?i) ?xs)"
    using id_take_nth_drop [OF i] by metis
  also have "\<dots> = add_mset (?xs ! ?i) (mset (take ?i ?xs @ drop (Suc ?i) ?xs))"
    by simp
  finally have split: "mset ?xs = add_mset (?xs ! ?i) (mset (take ?i ?xs @ drop (Suc ?i) ?xs))" .
  have "mset (as_completed (k # sched) ?xs) =
        add_mset (?xs ! ?i) (mset (as_completed sched (take ?i ?xs @ drop (Suc ?i) ?xs)))"
    by (simp add: Let_def)
  also have "\<dots> = add_mset (?xs ! ?i) (mset (take ?i ?xs @ drop (Suc ?i) ?xs))"
    using "3.IH" [of ?i] by simp
  finally show ?case using split by simp
qed simp_all

lemma as_completed_map: "as_completed sched (map g xs) = map g (as_completed sched xs)"
proof (induction sched xs rule: as_completed.induct)
  case (3 k sched f fs)
  let ?xs = "f # fs"
  let ?i = "k mod length ?xs"
  have i: "?i < length ?xs" by simp
  have "as_completed (k # sched) (map g ?xs) =
        map g ?xs ! ?i # as_completed sched (take ?i (map g ?xs) @ drop (Suc ?i) (map g ?xs))"
    by (simp add: Let_def)
  also have "take ?i (map g ?xs) @ drop (Suc ?i) (map g ?xs) =
             map g (take ?i ?xs @ drop (Suc ?i) ?xs)"
    by (simp only: take_map drop_map map_append)
  also have "map g ?xs ! ?i = g (?xs ! ?i)"
    using i by (rule nth_map)
  finally show ?case
    using "3.IH" [of ?i] by (simp add: Let_def)
qed simp_all

lemma set_as_completed: "set (as_completed sched xs) = set xs"
  using mset_as_completed [of sched xs] by (metis set_mset_mset)

lemma snd_check_bucket_modification:
  "snd (check_bucket_modification c n d w) =
     w\<lparr>log_records := log_records w @ check_log c n d\<rparr>"
  by (simp add: check_bucket_modification_def check_log_def logging_error_def split: sum.splits)

lemma run_all_checks:
  "run_all (map (\<lambda>b. check_bucket_modification c (name b) d) bs) w =
     (map (\<lambda>b. Inr (check_result c (name b) d)) bs,
      w\<lparr>log_records := log_records w @ concat (map (\<lambda>b. check_log c (name b) d) bs)\<rparr>)"
proof (induction bs arbitrary: w)
  case Nil
  show ?case by simp
next
  case (Cons b bs)
  obtain r w1 where step: "check_bucket_modification c (name b) d w = (r, w1)"
    by (cases "check_bucket_modification c (name b) d w")
  have r: "r = Inr (check_result c (name b) d)"
    using fst_check_bucket_modification [of c "name b" d w] step by simp
  have w1: "w1 = w\<lparr>log_records := log_records w @ check_log c (name b) d\<rparr>"
    using snd_check_bucket_modification [of c "name b" d w] step by simp
  show ?case
    by (simp add: step Cons.IH r w1)
qed

lemma collect_results_Inr:
  "collect_results (map (\<lambda>b. Inr (g b)) bs) acc = (acc @ List.map_filter g bs, None)"
proof (induction bs arbitrary: acc)
  case Nil
  show ?case by simp
next
  case (Cons b bs)
  show ?case
    by (cases "g b") (simp_all add: Cons.IH)
qed

lemma get_unmodified_buckets_listed:
  assumes "list_buckets c = Inr bs" and "0 < max_workers"
  shows "get_unmodified_buckets sched c d max_workers w =
     (Inr (List.map_filter (\<lambda>b. check_result c (name b) d) (as_completed sched bs)),
      w\<lparr>log_records := log_records w @
           concat (map (\<lambda>b. check_log c (name b) d) (as_completed sched bs))\<rparr>)"
  using assms
  by (simp add: get_unmodified_buckets_def as_completed_map run_all_checks collect_results_Inr)

lemma set_map_filter: "set (List.map_filter g xs) = {r. \<exists>x\<in>set xs. g x = Some r}"
  by (induction xs) (auto split: option.splits)

lemma mset_map_filter:
  "mset xs = mset ys \<Longrightarrow> mset (List.map_filter g xs) = mset (List.map_filter g ys)"
proof -
  assume eq: "mset xs = mset ys"
  have "\<And>zs. mset (List.map_filter g zs) =
             image_mset (the \<circ> g) (filter_mset (\<lambda>x. g x \<noteq> None) (mset zs))"
    by (simp add: List.map_filter_def)
  then show ?thesis using eq by simp
qed

lemma res_name_check_result: "check_result c n d = Some r \<Longrightarrow> res_name r = n"
  by (auto simp: check_result_def check_bucket_try_def get_bucket_def
           split: sum.splits option.splits bool.splits)

lemma names_of_results:
  assumes listed: "list_buckets c = Inr bs" and workers: "0 < max_workers"
    and res: "fst (get_unmodified_buckets sched c d max_workers w) = Inr results"
  shows "n \<in> res_name ` set results \<longleftrightarrow> n \<in> name ` set bs \<and> check_result c n d \<noteq> None"
proof -
  have results: "results = List.map_filter (\<lambda>b. check_result c (name b) d) (as_completed sched bs)"
    using res get_unmodified_buckets_listed [OF listed workers, of sched d w] by simp
  show ?thesis
  proof
    assume "n \<in> res_name ` set results"
    then obtain r b where r: "res_name r = n" and b: "b \<in> set bs"
      and chk: "check_result c (name b) d = Some r"
      by (auto simp: results set_map_filter set_as_completed)
    have "name b = n" using res_name_check_result [OF chk] r by simp
    then show "n \<in> name ` set bs \<and> check_result c n d \<noteq> None"
      using b chk by auto
  next
    assume "n \<in> name ` set bs \<and> check_result c n d \<noteq> None"
    then obtain b r where b: "b \<in> set bs" and nb: "name b = n"
      and chk: "check_result c n d = Some r" by auto
    have "r \<in> set results"
      using b nb chk by (auto simp: results set_map_filter set_as_completed)
    moreover have "res_name r = n" by (rule res_name_check_result [OF chk])
    ultimately show "n \<in> res_name ` set results" by force
  qed
qed

lemma blobs_all_at_or_before:
  assumes "tzinfo d = None"
  shows "blobs_modified_after (yields blobs StopIteration) d = Inr False \<longleftrightarrow>
         (\<forall>blob\<in>set blobs. \<exists>t. blob_updated blob = Some t \<and> at_or_before t d)"
proof (induction blobs)
  case Nil
  show ?case by simp
next
  case (Cons blob blobs)
  show ?case
  proof (cases "blob_updated blob")
    case None
    then show ?thesis by simp
  next
    case (Some u)
    then show ?thesis
      using Cons.IH by (cases "at_or_before u d") (simp_all add: naive_gt_naive [OF assms])
  qed
qed

lemma check_result_accessible:
  assumes naive: "tzinfo d = None"
    and fetched: "api_get_bucket c n = Inr b"
    and listed: "list_blobs c n = yields blobs StopIteration"
  shows "check_result c n d \<noteq> None \<longleftrightarrow> recency_checks b blobs d"
proof (cases "time_created b")
  case None
  then show ?thesis
    using fetched by (simp add: check_result_def check_bucket_try_def get_bucket_def recency_checks_def)
next
  case (Some t)
  note created = Some
  show ?thesis
  proof (cases "at_or_before t d")
    case False
    then show ?thesis
      using fetched created
      by (simp add: check_result_def check_bucket_try_def get_bucket_def recency_checks_def
            naive_gt_naive [OF naive])
  next
    case True
    note created_ok = True
    show ?thesis
    proof (cases "\<forall>u. updated b = Some u \<longrightarrow> at_or_before u d")
      case False
      then show ?thesis
        using fetched created created_ok
        by (auto simp: check_result_def check_bucket_try_def get_bucket_def recency_checks_def
              updated_after_def naive_gt_naive [OF naive])
    next
      case True
      then have upd: "updated_after (b\<lparr>name := n\<rparr>) d = Inr False"
        by (auto simp: updated_after_def naive_gt_naive [OF naive] split: option.splits)
      show ?thesis
        using fetched created created_ok True upd listed blobs_all_at_or_before [OF naive, of blobs]
        by (auto simp: check_result_def check_bucket_try_def get_bucket_def recency_checks_def
              naive_gt_naive [OF naive] split: sum.splits bool.splits)
    qed
  qed
qed

lemma check_bucket_modification_accessible:
  assumes naive: "tzinfo cutoff = None"
    and fetched: "api_get_bucket c n = Inr b"
    and objects: "list_blobs c n = yields blobs StopIteration"
    and checks: "recency_checks b blobs cutoff"
  shows "\<exists>t. time_created b = Some t \<and>
           check_bucket_modification c n cutoff w =
             (Inr (Some \<lparr>res_name = n, res_created = t,
                         res_last_modified = (case updated b of None \<Rightarrow> t | Some u \<Rightarrow> u),
                         res_location = location b, res_storage_class = storage_class b\<rparr>), w)"
proof -
  from checks obtain t where created: "time_created b = Some t" and t: "at_or_before t cutoff"
    by (auto simp: recency_checks_def)
  have upd: "updated_after (b\<lparr>name := n\<rparr>) cutoff = Inr False"
    using checks
    by (auto simp: recency_checks_def updated_after_def naive_gt_naive [OF naive]
          split: option.splits)
  have blobs: "blobs_modified_after (yields blobs StopIteration) cutoff = Inr False"
    using checks blobs_all_at_or_before [OF naive, of blobs] by (simp add: recency_checks_def)
  show ?thesis
    using created t upd blobs fetched objects
    by (simp add: check_bucket_modification_def check_bucket_try_def get_bucket_def
          naive_gt_naive [OF naive] updated_or_created_def)
qed

lemma check_result_Some:
  assumes "check_result c n d = Some r"
  shows "\<exists>b t. get_bucket c n = Inr b \<and> time_created b = Some t \<and>
           r = \<lparr>res_name = name b, res_created = t,
                res_last_modified = updated_or_created b t,
                res_location = location b, res_storage_class = storage_class b\<rparr>"
  using assms
  by (auto simp: check_result_def check_bucket_try_def
        split: sum.splits option.splits bool.splits)

lemma results_nonempty_listed:
  assumes res: "fst (get_unmodified_buckets sched c d workers w) = Inr results"
    and r: "r \<in> set results"
  shows "\<exists>bs. list_buckets c = Inr bs \<and> 0 < workers"
proof (cases "list_buckets c")
  case (Inl e)
  then show ?thesis using res r by (simp add: get_unmodified_buckets_def)
next
  case (Inr bs)
  then show ?thesis
    using res r by (cases "0 < workers") (auto simp: get_unmodified_buckets_def)
qed



lemma blobs_reach_raise:
  assumes naive: "tzinfo d = None"
    and pre: "\<forall>p\<in>set pre. \<exists>t. blob_updated p = Some t \<and> at_or_before t d"
  shows "blobs_modified_after (yields pre (Raise e)) d = Inl e"
  using pre
proof (induction pre)
  case Nil
  show ?case by simp
next
  case (Cons p pre)
  then obtain t where "blob_updated p = Some t" and "at_or_before t d" by auto
  then show ?case using Cons by (simp add: naive_gt_naive [OF naive])
qed

lemma map_filter_filter:
  assumes "\<And>x. \<not> P x \<Longrightarrow> g x = None"
  shows "List.map_filter g (filter P xs) = List.map_filter g xs"
  by (induction xs) (auto simp: assms split: option.splits)

lemma check_try_raised:
  "check_bucket_try c n d = Inl e \<Longrightarrow>
   check_bucket_modification c n d w =
     (Inr None, logging_error (''Error processing bucket '' @ n @ '': '' @ str e) w)"
  by (simp add: check_bucket_modification_def)

lemma listing_raises:
  assumes naive: "tzinfo d = None" and fetched: "api_get_bucket c n = Inr b"
    and checks: "recency_checks b pre d"
    and objects: "list_blobs c n = yields pre (Raise e)"
  shows "check_bucket_try c n d = Inl e"
proof -
  from checks obtain t where created: "time_created b = Some t" and t: "at_or_before t d"
    by (auto simp: recency_checks_def)
  have upd: "updated_after (b\<lparr>name := n\<rparr>) d = Inr False"
    using checks
    by (auto simp: recency_checks_def updated_after_def naive_gt_naive [OF naive]
          split: option.splits)
  have "\<forall>p\<in>set pre. \<exists>t. blob_updated p = Some t \<and> at_or_before t d"
    using checks by (simp add: recency_checks_def)
  then have blobs: "blobs_modified_after (yields pre (Raise e)) d = Inl e"
    by (rule blobs_reach_raise [OF naive])
  show ?thesis
    using created t upd blobs fetched objects
    by (simp add: check_bucket_try_def get_bucket_def naive_gt_naive [OF naive])
qed

lemma scan_isolated:
  assumes listing: "list_buckets c = Inr bs" and workers: "0 < workers"
    and raised: "check_bucket_try c n d = Inl e"
  shows "\<exists>results w'. get_unmodified_buckets sched c d workers w = (Inr results, w') \<and>
           mset results =
             mset (List.map_filter (\<lambda>b. check_result c (name b) d)
                     (filter (\<lambda>b. name b \<noteq> n) bs)) \<and>
           (n \<in> name ` set bs \<longrightarrow>
              (ERROR, ''Error processing bucket '' @ n @ '': '' @ str e) \<in> set (log_records w'))"
proof -
  let ?g = "\<lambda>b. check_result c (name b) d"
  let ?results = "List.map_filter ?g (as_completed sched bs)"
  let ?w' = "w\<lparr>log_records := log_records w @
               concat (map (\<lambda>b. check_log c (name b) d) (as_completed sched bs))\<rparr>"
  have run: "get_unmodified_buckets sched c d workers w = (Inr ?results, ?w')"
    by (rule get_unmodified_buckets_listed [OF listing workers])
  have none: "\<And>b. \<not> name b \<noteq> n \<Longrightarrow> ?g b = None"
    using raised by (simp add: check_result_def)
  have "mset ?results = mset (List.map_filter ?g bs)"
    by (rule mset_map_filter) (rule mset_as_completed)
  also have "List.map_filter ?g bs = List.map_filter ?g (filter (\<lambda>b. name b \<noteq> n) bs)"
    by (rule map_filter_filter [symmetric]) (rule none)
  finally have results: "mset ?results =
      mset (List.map_filter ?g (filter (\<lambda>b. name b \<noteq> n) bs))" .
  have logged: "(ERROR, ''Error processing bucket '' @ n @ '': '' @ str e) \<in> set (log_records ?w')"
    if "n \<in> name ` set bs"
  proof -
    from that obtain B where B: "B \<in> set (as_completed sched bs)" and nB: "name B = n"
      by (auto simp: set_as_completed)
    have "check_log c (name B) d = [(ERROR, ''Error processing bucket '' @ n @ '': '' @ str e)]"
      using raised nB by (simp add: check_log_def)
    then show ?thesis using B by force
  qed
  show ?thesis using run results logged by blast
qed

lemma files_logging [simp]:
  "files (logging_info msg w) = files w"
  "files (logging_error msg w) = files w"
  by (simp_all add: logging_info_def logging_error_def)

lemma files_get_storage_client [simp]:
  "files (snd (get_storage_client s pid w)) = files w"
  by (simp add: get_storage_client_def Let_def logging_error_def split: sum.splits)

lemma get_unmodified_buckets_returns:
  "\<exists>results. fst (get_unmodified_buckets sched c d workers w) = Inr results"
  by (auto simp: get_unmodified_buckets_def split: sum.splits prod.splits option.splits)

lemma files_get_unmodified_buckets [simp]:
  "files (snd (get_unmodified_buckets sched c d workers w)) = files w"
  by (auto simp: get_unmodified_buckets_def as_completed_map run_all_checks logging_error_def
        collect_results_Inr split: sum.splits)

section \<open>Properties of the report\<close>

declare dec.simps [simp del]








lemma keys_ws_cell [simp]: "keys (ws_cell ws r c v) = insert (r, c) (keys ws)"
  by (simp add: keys_def ws_cell_def AList.dom_update)

lemma keys_font_bold [simp]: "keys (font_bold ws r c) = keys ws"
  by (simp add: keys_def font_bold_def AList.dom_map_entry)










lemma cells_adjust_column_widths [simp]:
  "cells (adjust_column_widths ws) = cells ws"
proof -
  have "\<And>ws'. cells (fold (\<lambda>(col, column) ws.
             ws\<lparr>column_width := AList.update col (fold longer column 0 + 2) (column_width ws)\<rparr>)
           xs ws') = cells ws'" for xs
    by (induction xs) (simp_all add: split_def)
  then show ?thesis by (simp add: adjust_column_widths_def)
qed

lemma cell_at_adjust_column_widths [simp]:
  "cell_at (adjust_column_widths ws) r c = cell_at ws r c"
  by (simp add: cell_at_def)

lemma keys_adjust_column_widths [simp]: "keys (adjust_column_widths ws) = keys ws"
  by (simp add: keys_def)










section \<open>The example inputs evaluated\<close>

lemma client0_simps:
  "list_buckets client0 = Inr [b_old, b_locked, b_edge]"
  "api_get_bucket client0 ''alpha'' = Inr b_old"
  "api_get_bucket client0 ''edge'' = Inr b_edge"
  "api_get_bucket client0 ''mixed'' = Inr b_mixed"
  "api_get_bucket client0 ''bare'' = Inr b_mixed"
  "api_get_bucket client0 ''flaky'' = Inr b_mixed"
  "api_get_bucket client0 ''locked'' = Inl (Exn Forbidden ''403 access denied'')"
  "list_blobs client0 ''alpha'' = yields [blob_old] StopIteration"
  "list_blobs client0 ''edge'' = yields [] StopIteration"
  "list_blobs client0 ''locked'' = yields [] StopIteration"
  "list_blobs client0 ''mixed'' = yields [blob_new] (Yield blob_bare StopIteration)"
  "list_blobs client0 ''bare'' = yields [blob_old] (Yield blob_bare StopIteration)"
  "list_blobs client0 ''flaky'' = yields [blob_old] (Raise (Exn GoogleAPIError ''503 backend error''))"
  by (simp_all add: client0_def list_buckets_def list_blobs_def)

lemma example_times:
  "tzinfo cutoff0 = None"
  "at_or_before t_old cutoff0"
  "at_or_before t_cut cutoff0"
  "\<not> at_or_before t_new cutoff0"
  "replace_tzinfo_None t_cut = cutoff0"
  by (simp_all add: cutoff0_def midnight_def at_or_before_def wall_def replace_tzinfo_None_def
        t_old_def t_cut_def t_new_def)

lemma scan_client0:
  "fst (get_unmodified_buckets [] client0 cutoff0 10 w0) = Inr [r_alpha, r_edge]"
  "log_records (snd (get_unmodified_buckets [] client0 cutoff0 10 w0)) =
     [(ERROR, ''Error processing bucket locked: 403 access denied'')]"
  by code_simp+

lemma check_client0:
  "check_result client0 ''alpha'' cutoff0 = Some r_alpha"
  "check_result client0 ''edge'' cutoff0 = Some r_edge"
  "check_bucket_try client0 ''locked'' cutoff0 = Inl (Exn Forbidden ''403 access denied'')"
  "check_bucket_try client0 ''mixed'' cutoff0 = Inr None"
  by code_simp+

lemma no_credentials:
  "fst (get_storage_client s_nocreds ''demo'' w0) =
     Inl (Exn FileNotFoundError ''[Errno 2] No such file or directory'')"
  by (simp add: get_storage_client_def s_nocreds_def s0_def Let_def)

lemma main_s_nocreds:
  "fst (main s_nocreds args0 w0) = Inr ()"
  "log_records (snd (main s_nocreds args0 w0)) =
     [(INFO, ''Searching for unmodified buckets in project demo since 2021-01-01''),
      (ERROR, credentials_message),
      (ERROR, ''An error occurred: [Errno 2] No such file or directory'')]"
  by code_simp+

lemma main_s0_2019:
  "log_records (snd (main s0 args_2019 w0)) =
     [(INFO, ''Searching for unmodified buckets in project demo since 2019-01-01''),
      (ERROR, ''Error processing bucket locked: 403 access denied''),
      (INFO, ''No unmodified buckets found'')]"
  by code_simp

lemma main_s_nolist:
  "log_records (snd (main s_nolist args0 w0)) =
     [(INFO, ''Searching for unmodified buckets in project demo since 2021-01-01''),
      (ERROR, ''Error in get_unmodified_buckets: 403 list denied''),
      (INFO, ''No unmodified buckets found'')]"
  by code_simp



section \<open>The claims\<close>

text \<open>
  C1 (as amended). For every listed bucket whose resource the provider returns and whose
  object listing runs to its end, with a naive cutoff and a positive worker count, the scan
  returns a result set, and the bucket's name is in it if and only if the three recency
  checks hold of what was fetched: the creation time, zone stripped, is at or before the
  cutoff; the metadata-update time is absent or at or before the cutoff; every listed object
  has a last-modified time at or before the cutoff. This holds for every completion order.
\<close>

theorem C1_membership_iff_checks:
  assumes naive: "tzinfo cutoff = None"
    and workers: "0 < workers"
    and listing: "list_buckets c = Inr bs"
    and B: "B \<in> set bs"
    and fetched: "api_get_bucket c (name B) = Inr b"
    and objects: "list_blobs c (name B) = yields blobs StopIteration"
  shows "\<exists>results. fst (get_unmodified_buckets sched c cutoff workers w) = Inr results \<and>
           (name B \<in> res_name ` set results \<longleftrightarrow> recency_checks b blobs cutoff)"
proof -
  obtain results where res: "fst (get_unmodified_buckets sched c cutoff workers w) = Inr results"
    using get_unmodified_buckets_listed [OF listing workers, of sched cutoff w] by simp
  have "name B \<in> res_name ` set results \<longleftrightarrow>
        name B \<in> name ` set bs \<and> check_result c (name B) cutoff \<noteq> None"
    by (rule names_of_results [OF listing workers res])
  also have "\<dots> \<longleftrightarrow> check_result c (name B) cutoff \<noteq> None"
    using B by simp
  also have "\<dots> \<longleftrightarrow> recency_checks b blobs cutoff"
    by (rule check_result_accessible [OF naive fetched objects])
  finally show ?thesis using res by blast
qed

text \<open>
  The theorem at the example project, bucket \<open>alpha\<close>, with the third and then the first
  future completing first: the checks hold, so the bucket is in the result set.
\<close>

theorem C1_witness:
  "recency_checks b_old [blob_old] cutoff0 \<and>
   (\<exists>results. fst (get_unmodified_buckets [2, 0] client0 cutoff0 10 w0) = Inr results \<and>
      (name b_old \<in> res_name ` set results \<longleftrightarrow>
       recency_checks b_old [blob_old] cutoff0))"
proof -
  have "recency_checks b_old [blob_old] cutoff0"
    by (simp add: recency_checks_def b_old_def blob_old_def example_times)
  moreover have "b_old \<in> set [b_old, b_locked, b_edge]" by simp
  moreover have "name b_old = ''alpha''" by (simp add: b_old_def)
  ultimately show ?thesis
    using C1_membership_iff_checks [of cutoff0 10 client0 "[b_old, b_locked, b_edge]" b_old b_old
        "[blob_old]" "[2, 0]" w0]
    by (simp add: client0_simps example_times)
qed

text \<open>
  C1 as stated fails for a listed bucket the caller may not read: bucket \<open>locked\<close> is in the
  listing, its creation time is before the cutoff, it has no metadata update and no objects,
  and the result set does not hold it, because reading its resource raised.
\<close>

theorem C1_counterexample:
  "list_buckets client0 = Inr [b_old, b_locked, b_edge] \<and>
   recency_checks b_locked [] cutoff0 \<and>
   list_blobs client0 (name b_locked) = yields [] StopIteration \<and>
   fst (get_unmodified_buckets [] client0 cutoff0 10 w0) = Inr [r_alpha, r_edge] \<and>
   name b_locked \<notin> res_name ` set [r_alpha, r_edge]"
proof -
  have "recency_checks b_locked [] cutoff0"
    by (simp add: recency_checks_def b_locked_def example_times)
  moreover have "name b_locked \<notin> res_name ` set [r_alpha, r_edge]"
    by (simp add: b_locked_def r_alpha_def r_edge_def)
  moreover have "name b_locked = ''locked''" by (simp add: b_locked_def)
  ultimately show ?thesis
    by (simp add: client0_simps scan_client0)
qed

text \<open>
  C2. A bucket whose creation time, zone stripped, equals the cutoff exactly, and whose other
  checks pass (its resource is returned, its metadata update is absent or at or before the
  cutoff, its listing runs to the end over objects at or before the cutoff), is included:
  the single-bucket scan returns its result, and when the bucket is listed the result set
  holds it. Equality with the cutoff does not exclude.
\<close>

theorem C2_boundary_inclusive:
  assumes fetched: "api_get_bucket c n = Inr b"
    and created: "time_created b = Some t"
    and boundary: "replace_tzinfo_None t = cutoff"
    and upd: "\<forall>u. updated b = Some u \<longrightarrow> at_or_before u cutoff"
    and objects: "list_blobs c n = yields blobs StopIteration"
    and blobs: "\<forall>blob\<in>set blobs. \<exists>u. blob_updated blob = Some u \<and> at_or_before u cutoff"
    and listing: "list_buckets c = Inr bs"
    and B: "n \<in> name ` set bs"
    and workers: "0 < workers"
  shows "(\<exists>r. check_bucket_modification c n cutoff w = (Inr (Some r), w) \<and>
              res_name r = n \<and> res_created r = t) \<and>
         (\<exists>results. fst (get_unmodified_buckets sched c cutoff workers w) = Inr results \<and>
              n \<in> res_name ` set results)"
proof -
  have naive: "tzinfo cutoff = None"
    using boundary by (auto simp: replace_tzinfo_None_def)
  have "at_or_before t cutoff"
    using boundary by (auto simp: at_or_before_def)
  then have checks: "recency_checks b blobs cutoff"
    using created upd blobs by (simp add: recency_checks_def)
  have first: "\<exists>r. check_bucket_modification c n cutoff w = (Inr (Some r), w) \<and>
              res_name r = n \<and> res_created r = t"
    using check_bucket_modification_accessible [OF naive fetched objects checks, of w] created
    by auto
  obtain results where res: "fst (get_unmodified_buckets sched c cutoff workers w) = Inr results"
    using get_unmodified_buckets_listed [OF listing workers, of sched cutoff w] by simp
  have "check_result c n cutoff \<noteq> None"
    using check_result_accessible [OF naive fetched objects] checks by simp
  then have "n \<in> res_name ` set results"
    using names_of_results [OF listing workers res, of n] B by simp
  with res first show ?thesis by blast
qed

text \<open>
  The theorem at bucket \<open>edge\<close>, created and last updated at the cutoff to the microsecond.
\<close>

theorem C2_witness:
  "(\<exists>r. check_bucket_modification client0 ''edge'' cutoff0 w0 = (Inr (Some r), w0) \<and>
        res_name r = ''edge'' \<and> res_created r = t_cut) \<and>
   (\<exists>results. fst (get_unmodified_buckets [1] client0 cutoff0 4 w0) = Inr results \<and>
        ''edge'' \<in> res_name ` set results)"
proof -
  have "\<forall>u. updated b_edge = Some u \<longrightarrow> at_or_before u cutoff0"
    by (simp add: b_edge_def example_times)
  moreover have "time_created b_edge = Some t_cut" by (simp add: b_edge_def)
  moreover have "''edge'' \<in> name ` set [b_old, b_locked, b_edge]" by (simp add: b_edge_def)
  ultimately show ?thesis
    using C2_boundary_inclusive [of client0 "''edge''" b_edge t_cut cutoff0 "[]"
        "[b_old, b_locked, b_edge]" 4 w0 "[1]"]
    by (simp add: client0_simps example_times)
qed

text \<open>
  C4. The single-bucket scan returns for every input (it never raises). An exception raised
  while the bucket's resource is fetched, or by a page of the object listing once the
  bucket-level checks have passed, is the exception of the \<^verbatim>\<open>try\<close> block; whatever that block
  raises is logged under the bucket's name and turned into \<^verbatim>\<open>None\<close>. In a scan over a listing
  the results are then exactly what the other listed buckets give, each by itself, and the
  log holds the diagnostic for the failed one.
\<close>

theorem C4_failure_isolation:
  "(\<exists>r. fst (check_bucket_modification c n cutoff w) = Inr r) \<and>
   (\<forall>e. get_bucket c n = Inl e \<longrightarrow> check_bucket_try c n cutoff = Inl e) \<and>
   (\<forall>e b pre. tzinfo cutoff = None \<and> api_get_bucket c n = Inr b \<and>
        recency_checks b pre cutoff \<and> list_blobs c n = yields pre (Raise e) \<longrightarrow>
        check_bucket_try c n cutoff = Inl e) \<and>
   (\<forall>e. check_bucket_try c n cutoff = Inl e \<longrightarrow>
        check_bucket_modification c n cutoff w =
          (Inr None, logging_error (''Error processing bucket '' @ n @ '': '' @ str e) w)) \<and>
   (\<forall>e bs. check_bucket_try c n cutoff = Inl e \<and> list_buckets c = Inr bs \<and> 0 < workers \<longrightarrow>
        (\<exists>results w'. get_unmodified_buckets sched c cutoff workers w = (Inr results, w') \<and>
           mset results =
             mset (List.map_filter (\<lambda>b. check_result c (name b) cutoff)
                     (filter (\<lambda>b. name b \<noteq> n) bs)) \<and>
           (n \<in> name ` set bs \<longrightarrow>
              (ERROR, ''Error processing bucket '' @ n @ '': '' @ str e)
                \<in> set (log_records w'))))"
proof (intro conjI allI impI)
  show "\<exists>r. fst (check_bucket_modification c n cutoff w) = Inr r"
    by (simp add: fst_check_bucket_modification)
next
  fix e assume "get_bucket c n = Inl e"
  then show "check_bucket_try c n cutoff = Inl e"
    by (simp add: check_bucket_try_def)
next
  fix e b pre
  assume "tzinfo cutoff = None \<and> api_get_bucket c n = Inr b \<and>
        recency_checks b pre cutoff \<and> list_blobs c n = yields pre (Raise e)"
  then show "check_bucket_try c n cutoff = Inl e"
    using listing_raises by blast
next
  fix e assume "check_bucket_try c n cutoff = Inl e"
  then show "check_bucket_modification c n cutoff w =
          (Inr None, logging_error (''Error processing bucket '' @ n @ '': '' @ str e) w)"
    by (rule check_try_raised)
next
  fix e bs
  assume "check_bucket_try c n cutoff = Inl e \<and> list_buckets c = Inr bs \<and> 0 < workers"
  then show "\<exists>results w'. get_unmodified_buckets sched c cutoff workers w = (Inr results, w') \<and>
           mset results =
             mset (List.map_filter (\<lambda>b. check_result c (name b) cutoff)
                     (filter (\<lambda>b. name b \<noteq> n) bs)) \<and>
           (n \<in> name ` set bs \<longrightarrow>
              (ERROR, ''Error processing bucket '' @ n @ '': '' @ str e)
                \<in> set (log_records w'))"
    using scan_isolated by blast
qed

text \<open>
  The theorem at the example project: reading \<open>locked\<close> is forbidden and a page of \<open>flaky\<close>
  fails; the scan of the listing returns the results of \<open>alpha\<close> and \<open>edge\<close> and logs the
  diagnostic for \<open>locked\<close>.
\<close>

theorem C4_witness:
  "(\<exists>r. fst (check_bucket_modification client0 ''locked'' cutoff0 w0) = Inr r) \<and>
   check_bucket_try client0 ''locked'' cutoff0 = Inl (Exn Forbidden ''403 access denied'') \<and>
   check_bucket_try client0 ''flaky'' cutoff0 = Inl (Exn GoogleAPIError ''503 backend error'') \<and>
   check_bucket_modification client0 ''locked'' cutoff0 w0 =
     (Inr None, logging_error ''Error processing bucket locked: 403 access denied'' w0) \<and>
   (\<exists>results w'. get_unmodified_buckets [1, 1] client0 cutoff0 10 w0 = (Inr results, w') \<and>
      mset results = {#r_alpha, r_edge#} \<and>
      (ERROR, ''Error processing bucket locked: 403 access denied'') \<in> set (log_records w'))"
proof -
  note locked = C4_failure_isolation [of client0 "''locked''" cutoff0 w0 10 "[1, 1]"]
  note flaky = C4_failure_isolation [of client0 "''flaky''" cutoff0 w0 10 "[1, 1]"]
  have fetch: "get_bucket client0 ''locked'' = Inl (Exn Forbidden ''403 access denied'')"
    by (simp add: get_bucket_def client0_simps)
  have raised: "check_bucket_try client0 ''locked'' cutoff0 = Inl (Exn Forbidden ''403 access denied'')"
    using locked fetch by blast
  have "recency_checks b_mixed [blob_old] cutoff0"
    by (simp add: recency_checks_def b_mixed_def blob_old_def example_times)
  then have page: "check_bucket_try client0 ''flaky'' cutoff0 =
      Inl (Exn GoogleAPIError ''503 backend error'')"
    using flaky client0_simps(6,13) example_times(1) by blast
  have handled: "check_bucket_modification client0 ''locked'' cutoff0 w0 =
     (Inr None, logging_error ''Error processing bucket locked: 403 access denied'' w0)"
    using locked raised by fastforce
  have pos: "(0::int) < 10" by simp
  have names: "''locked'' \<in> name ` set [b_old, b_locked, b_edge]"
    by (simp add: b_locked_def)
  have others: "List.map_filter (\<lambda>b. check_result client0 (name b) cutoff0)
                  (filter (\<lambda>b. name b \<noteq> ''locked'') [b_old, b_locked, b_edge]) =
                [r_alpha, r_edge]"
    by (simp add: b_old_def b_locked_def b_edge_def check_client0)
  have "\<exists>results w'. get_unmodified_buckets [1, 1] client0 cutoff0 10 w0 = (Inr results, w') \<and>
      mset results =
        mset (List.map_filter (\<lambda>b. check_result client0 (name b) cutoff0)
                (filter (\<lambda>b. name b \<noteq> ''locked'') [b_old, b_locked, b_edge])) \<and>
      (''locked'' \<in> name ` set [b_old, b_locked, b_edge] \<longrightarrow>
         (ERROR, ''Error processing bucket '' @ ''locked'' @ '': '' @
                 str (Exn Forbidden ''403 access denied'')) \<in> set (log_records w'))"
    using locked raised client0_simps(1) pos by blast
  then obtain results w' where
      run: "get_unmodified_buckets [1, 1] client0 cutoff0 10 w0 = (Inr results, w')"
    and rest: "mset results = mset [r_alpha, r_edge]"
    and logged: "(ERROR, ''Error processing bucket '' @ ''locked'' @ '': '' @
                 str (Exn Forbidden ''403 access denied'')) \<in> set (log_records w')"
    using names unfolding others by blast
  have "mset results = {#r_alpha, r_edge#}"
    using rest by simp
  moreover have "(ERROR, ''Error processing bucket locked: 403 access denied'') \<in> set (log_records w')"
    using logged by simp
  ultimately have scan: "\<exists>results w'. get_unmodified_buckets [1, 1] client0 cutoff0 10 w0 = (Inr results, w') \<and>
      mset results = {#r_alpha, r_edge#} \<and>
      (ERROR, ''Error processing bucket locked: 403 access denied'') \<in> set (log_records w')"
    using run by blast
  from locked have "\<exists>r. fst (check_bucket_modification client0 ''locked'' cutoff0 w0) = Inr r"
    by (rule conjunct1)
  with raised page handled scan show ?thesis by simp
qed

text \<open>
  C5. Every result in the result set belongs to a listed bucket whose resource was fetched,
  and its last-modified field is the resource's metadata-update time when there is one, and
  its creation time otherwise.
\<close>

theorem C5_last_modified:
  assumes res: "fst (get_unmodified_buckets sched c cutoff workers w) = Inr results"
    and r: "r \<in> set results"
  shows "\<exists>bs B b t. list_buckets c = Inr bs \<and> B \<in> set bs \<and> res_name r = name B \<and>
           get_bucket c (name B) = Inr b \<and> time_created b = Some t \<and>
           res_last_modified r = (case updated b of Some u \<Rightarrow> u | None \<Rightarrow> t)"
proof -
  obtain bs where listing: "list_buckets c = Inr bs" and workers: "0 < workers"
    using results_nonempty_listed [OF res r] by blast
  have "results = List.map_filter (\<lambda>b. check_result c (name b) cutoff) (as_completed sched bs)"
    using res get_unmodified_buckets_listed [OF listing workers, of sched cutoff w] by simp
  then obtain B where B: "B \<in> set bs" and chk: "check_result c (name B) cutoff = Some r"
    using r by (auto simp: set_map_filter set_as_completed)
  obtain b t where b: "get_bucket c (name B) = Inr b" and t: "time_created b = Some t"
    and r_eq: "r = \<lparr>res_name = name b, res_created = t,
                    res_last_modified = updated_or_created b t,
                    res_location = location b, res_storage_class = storage_class b\<rparr>"
    using check_result_Some [OF chk] by blast
  have "res_last_modified r = (case updated b of Some u \<Rightarrow> u | None \<Rightarrow> t)"
    by (simp add: r_eq updated_or_created_def split: option.splits)
  moreover have "res_name r = name B"
    by (rule res_name_check_result [OF chk])
  ultimately show ?thesis using listing B b t by blast
qed

text \<open>The theorem at the result of \<open>alpha\<close>, a bucket with no metadata update.\<close>

theorem C5_witness:
  "r_alpha \<in> set [r_alpha, r_edge] \<and>
   (\<exists>bs B b t. list_buckets client0 = Inr bs \<and> B \<in> set bs \<and> res_name r_alpha = name B \<and>
      get_bucket client0 (name B) = Inr b \<and> time_created b = Some t \<and>
      res_last_modified r_alpha = (case updated b of Some u \<Rightarrow> u | None \<Rightarrow> t))"
  using C5_last_modified [of "[]" client0 cutoff0 10 w0 "[r_alpha, r_edge]" r_alpha]
  by (simp add: scan_client0)




text \<open>
  C3 (as amended). When the credential file cannot be loaded (the loader raises
  \<^verbatim>\<open>FileNotFoundError\<close> or \<^verbatim>\<open>DefaultCredentialsError\<close>), \<^verbatim>\<open>get_storage_client\<close> logs an error and
  re-raises; the handler at the top of \<^verbatim>\<open>main\<close> catches the failure and logs it a second time,
  and \<^verbatim>\<open>main\<close> returns normally. No scan runs and no report is written: the state differs
  from the initial one by the environment variable and three log records.
\<close>

theorem C3_credential_failure_caught:
  assumes parse: "strptime_Ymd s (arg_cutoff_date a) = Inr ymd"
    and missing: "from_authorized_user_file s
                    (expanduser s ((environ w)(''GOOGLE_CLOUD_PROJECT'' \<mapsto> arg_project_id a))
                       ''~/.config/gcloud/application_default_credentials.json'') = Inl e"
    and cls: "class_of e = DefaultCredentialsError \<or> class_of e = FileNotFoundError"
  shows "fst (get_storage_client s (arg_project_id a) w) = Inl e \<and>
         main s a w =
           (Inr (),
            w\<lparr>environ := (environ w)(''GOOGLE_CLOUD_PROJECT'' \<mapsto> arg_project_id a),
              log_records := log_records w @
                [(INFO, ''Searching for unmodified buckets in project '' @ arg_project_id a @
                        '' since '' @ arg_cutoff_date a),
                 (ERROR, credentials_message),
                 (ERROR, ''An error occurred: '' @ str e)]\<rparr>)"
  using parse missing cls
  by (auto simp: main_def get_storage_client_def Let_def logging_error_def logging_info_def)

text \<open>The theorem at a system whose credential file is missing.\<close>

theorem C3_witness:
  "fst (get_storage_client s_nocreds (arg_project_id args0) w0) =
     Inl (Exn FileNotFoundError ''[Errno 2] No such file or directory'') \<and>
   main s_nocreds args0 w0 =
     (Inr (),
      w0\<lparr>environ := (environ w0)(''GOOGLE_CLOUD_PROJECT'' \<mapsto> ''demo''),
         log_records :=
           [(INFO, ''Searching for unmodified buckets in project demo since 2021-01-01''),
            (ERROR, credentials_message),
            (ERROR, ''An error occurred: [Errno 2] No such file or directory'')]\<rparr>)"
proof -
  have parse: "strptime_Ymd s_nocreds (arg_cutoff_date args0) = Inr (2021, 1, 1)"
    by (simp add: s_nocreds_def s0_def args0_def)
  have missing: "from_authorized_user_file s_nocreds
                    (expanduser s_nocreds
                       ((environ w0)(''GOOGLE_CLOUD_PROJECT'' \<mapsto> arg_project_id args0))
                       ''~/.config/gcloud/application_default_credentials.json'') =
                 Inl (Exn FileNotFoundError ''[Errno 2] No such file or directory'')"
    by (simp add: s_nocreds_def)
  have cls: "class_of (Exn FileNotFoundError ''[Errno 2] No such file or directory'') =
               DefaultCredentialsError \<or>
             class_of (Exn FileNotFoundError ''[Errno 2] No such file or directory'') =
               FileNotFoundError"
    by simp
  show ?thesis
    using C3_credential_failure_caught [OF parse missing cls]
    by (simp add: args0_def w0_def)
qed

text \<open>
  C3 as stated fails: with the credential file missing, \<^verbatim>\<open>get_storage_client\<close> raises, and
  \<^verbatim>\<open>main\<close> returns normally instead of ending in the raised failure.
\<close>

theorem C3_counterexample:
  "fst (get_storage_client s_nocreds ''demo'' w0) =
     Inl (Exn FileNotFoundError ''[Errno 2] No such file or directory'') \<and>
   fst (main s_nocreds args0 w0) = Inr ()"
  by (simp add: no_credentials main_s_nocreds)

text \<open>
  C7. When listing the project's buckets raises, the coordinator logs the failure and
  returns the empty list; \<^verbatim>\<open>main\<close>, given that client, goes on to log that no unmodified
  bucket was found and returns normally.
\<close>

theorem C7_listing_failure:
  assumes failed: "list_buckets c = Inl e"
  shows "get_unmodified_buckets sched c cutoff workers w =
           (Inr [], logging_error (''Error in get_unmodified_buckets: '' @ str e) w) \<and>
         (\<forall>s a ymd wa wb.
            strptime_Ymd s (arg_cutoff_date a) = Inr ymd \<and>
            get_storage_client s (arg_project_id a)
              (logging_info (''Searching for unmodified buckets in project '' @ arg_project_id a @
                             '' since '' @ arg_cutoff_date a) wa) = (Inr c, wb) \<longrightarrow>
            main s a wa =
              (Inr (),
               logging_info ''No unmodified buckets found''
                 (logging_error (''Error in get_unmodified_buckets: '' @ str e) wb)))"
  using failed
  by (auto simp: get_unmodified_buckets_def main_def Let_def)

text \<open>The theorem at a client whose listing is forbidden.\<close>

theorem C7_witness:
  "get_unmodified_buckets [] c_nolist cutoff0 10 w0 =
     (Inr [], logging_error ''Error in get_unmodified_buckets: 403 list denied'' w0) \<and>
   fst (main s_nolist args0 w0) = Inr () \<and>
   log_records (snd (main s_nolist args0 w0)) =
     [(INFO, ''Searching for unmodified buckets in project demo since 2021-01-01''),
      (ERROR, ''Error in get_unmodified_buckets: 403 list denied''),
      (INFO, ''No unmodified buckets found'')]"
proof -
  have failed: "list_buckets c_nolist = Inl (Exn Forbidden ''403 list denied'')"
    by (simp add: list_buckets_def c_nolist_def)
  note inst = C7_listing_failure [OF failed, of "[]" cutoff0 10 w0]
  let ?w1 = "logging_info (''Searching for unmodified buckets in project '' @
               arg_project_id args0 @ '' since '' @ arg_cutoff_date args0) w0"
  let ?wb = "?w1\<lparr>environ := (environ ?w1)(''GOOGLE_CLOUD_PROJECT'' \<mapsto> ''demo'')\<rparr>"
  have parse: "strptime_Ymd s_nolist (arg_cutoff_date args0) = Inr (2021, 1, 1)"
    by (simp add: s_nolist_def s0_def args0_def)
  have connected: "get_storage_client s_nolist (arg_project_id args0) ?w1 = (Inr c_nolist, ?wb)"
    by (simp add: get_storage_client_def s_nolist_def s0_def Let_def args0_def)
  from inst parse connected
  have run: "main s_nolist args0 w0 =
      (Inr (),
       logging_info ''No unmodified buckets found''
         (logging_error (''Error in get_unmodified_buckets: '' @
            str (Exn Forbidden ''403 list denied'')) ?wb))"
    by blast
  have "fst (main s_nolist args0 w0) = Inr ()"
    by (simp add: run)
  moreover have "log_records (snd (main s_nolist args0 w0)) =
     [(INFO, ''Searching for unmodified buckets in project demo since 2021-01-01''),
      (ERROR, ''Error in get_unmodified_buckets: 403 list denied''),
      (INFO, ''No unmodified buckets found'')]"
    by (rule main_s_nolist)
  moreover have "get_unmodified_buckets [] c_nolist cutoff0 10 w0 =
     (Inr [], logging_error ''Error in get_unmodified_buckets: 403 list denied'' w0)"
    using inst by simp
  ultimately show ?thesis by simp
qed

text \<open>
  C8. When the scan returns an empty list, \<^verbatim>\<open>main\<close> takes the branch without
  \<^verbatim>\<open>write_to_excel\<close>: it returns after one more log record on the state the scan left, and the
  files are what they were before the run, so no output file is created and one already at the
  output path is unchanged.
\<close>

theorem C8_empty_no_report:
  fixes s :: sys and a :: args and w :: world
  defines "w1 \<equiv> logging_info (''Searching for unmodified buckets in project '' @
                    arg_project_id a @ '' since '' @ arg_cutoff_date a) w"
  defines "w2 \<equiv> snd (get_storage_client s (arg_project_id a) w1)"
  assumes parse: "strptime_Ymd s (arg_cutoff_date a) = Inr ymd"
    and connected: "fst (get_storage_client s (arg_project_id a) w1) = Inr c"
    and empty: "fst (get_unmodified_buckets (completion_order s) c (midnight ymd)
                       (arg_max_workers a) w2) = Inr []"
  shows "main s a w =
           (Inr (),
            logging_info ''No unmodified buckets found''
              (snd (get_unmodified_buckets (completion_order s) c (midnight ymd)
                      (arg_max_workers a) w2))) \<and>
         files (snd (main s a w)) = files w"
proof -
  let ?scan = "get_unmodified_buckets (completion_order s) c (midnight ymd) (arg_max_workers a) w2"
  have client: "get_storage_client s (arg_project_id a) w1 = (Inr c, w2)"
    using connected by (simp add: w2_def prod_eq_iff)
  obtain w3 where scan: "?scan = (Inr [], w3)"
    using empty by (cases ?scan) auto
  have "main s a w = (Inr (), logging_info ''No unmodified buckets found'' w3)"
    using parse client [unfolded w1_def] scan
    by (simp add: main_def Let_def)
  moreover have w3: "w3 = snd ?scan"
    using scan by simp
  ultimately have run:
      "main s a w = (Inr (), logging_info ''No unmodified buckets found'' (snd ?scan))"
    by simp
  have "files (snd ?scan) = files w2" by simp
  moreover have "files w2 = files w" by (simp add: w2_def w1_def)
  ultimately show ?thesis using run by simp
qed

text \<open>
  The theorem at the example project with a cutoff at the start of 2019, before every
  bucket was created.
\<close>

theorem C8_witness:
  "fst (main s0 args_2019 w0) = Inr () \<and>
   files (snd (main s0 args_2019 w0)) = files w0 \<and>
   log_records (snd (main s0 args_2019 w0)) =
     [(INFO, ''Searching for unmodified buckets in project demo since 2019-01-01''),
      (ERROR, ''Error processing bucket locked: 403 access denied''),
      (INFO, ''No unmodified buckets found'')]"
proof -
  let ?w1 = "logging_info (''Searching for unmodified buckets in project '' @
                    arg_project_id args_2019 @ '' since '' @ arg_cutoff_date args_2019) w0"
  have parse: "strptime_Ymd s0 (arg_cutoff_date args_2019) = Inr (2019, 1, 1)"
    by (simp add: s0_def args_2019_def args0_def)
  have connected: "fst (get_storage_client s0 (arg_project_id args_2019) ?w1) = Inr client0"
    by (simp add: get_storage_client_def s0_def Let_def)
  have empty: "fst (get_unmodified_buckets (completion_order s0) client0 (midnight (2019, 1, 1))
                       (arg_max_workers args_2019)
                       (snd (get_storage_client s0 (arg_project_id args_2019) ?w1))) = Inr []"
    by code_simp
  note inst = C8_empty_no_report [OF parse connected empty]
  from inst have returned: "fst (main s0 args_2019 w0) = Inr ()"
    by simp
  from inst have untouched: "files (snd (main s0 args_2019 w0)) = files w0"
    by (rule conjunct2)
  show ?thesis
    by (intro conjI returned untouched main_s0_2019)
qed





end
